theory Spec2Isabelle
  imports Main
begin

section \<open>The remote session layer of \<open>tools/ssh/ssh_handler.py\<close>\<close>

text \<open>
  The classes \<open>SSHConnect\<close>, \<open>SSHCommands\<close>, \<open>SCPFileTransfer\<close> and \<open>SSHHandler\<close>
  share the four attributes set by \<open>SSHConnect.__init__\<close>. Every method is embedded as a
  function from the object's state (and the reply of the remote side) to the method's
  result and the state it leaves: a \<open>raise\<close> is an \<open>Inl\<close>, a \<open>return\<close> an \<open>Inr\<close>.
  The two libraries the module drives (paramiko and scp) are not part of the repository;
  what they answer is a parameter of each function, and what the module asks of them is
  appended to a log kept beside the attributes. Printed progress text is left out.
\<close>

subsection \<open>Exceptions of the libraries and of the module\<close>

text \<open>
  The exception classes the \<open>except\<close> clauses of the module distinguish. The builtin
  \<open>FileNotFoundError\<close>, \<open>PermissionError\<close> and \<open>TimeoutError\<close> are subclasses of
  \<open>OSError\<close>, and paramiko's \<open>AuthenticationException\<close> is a subclass of its
  \<open>SSHException\<close>; \<open>OtherException\<close> stands for any other subclass of \<open>Exception\<close>.
  The \<open>errno\<close> of an \<open>OSError\<close> only selects a printed message in \<open>ssh_connect\<close>
  and is not recorded.
\<close>

datatype exn =
    AuthenticationException
  | SSHException
  | OSError
  | FileNotFoundError
  | PermissionError
  | TimeoutError
  | SCPException
  | AttributeError
  | OtherException

fun isinstance_OSError :: "exn \<Rightarrow> bool" where
  "isinstance_OSError OSError = True"
| "isinstance_OSError FileNotFoundError = True"
| "isinstance_OSError PermissionError = True"
| "isinstance_OSError TimeoutError = True"
| "isinstance_OSError _ = False"

fun isinstance_SSHException :: "exn \<Rightarrow> bool" where
  "isinstance_SSHException SSHException = True"
| "isinstance_SSHException AuthenticationException = True"
| "isinstance_SSHException _ = False"

text \<open>What a call into a library does: it raises, or it returns a value.\<close>

datatype 'a outcome = Raises exn | Returns 'a

text \<open>
  The exception classes the module defines (lines 26 to 78). \<open>ExecuteCommandError\<close>
  and \<open>SCPTransferError\<close> carry their message, which is a constant of the source and the
  only thing that tells their causes apart. \<open>Uncaught e\<close> is a library exception that no
  \<open>except\<close> clause of the method catches, so that it reaches the caller as it is.
\<close>

datatype error =
    SSHAlreadyConnectedError
  | SSHAuthenticationError
  | NetworkError
  | SSHConnectionError
  | UnknownError
  | ExecuteCommandError string
  | SCPConnectionError
  | SCPTransferError string
  | SSHError
  | Uncaught exn

subsection \<open>The object and the log of library calls\<close>

text \<open>
  \<open>paramiko.SSHClient()\<close> creates a new object each time it is called; the number in
  \<open>SSHClient n\<close> tells the objects apart. \<open>SCPClient c\<close> is the scp client built on the
  transport of \<open>c\<close>.
\<close>

datatype SSHClient = SSHClient nat

datatype SCPClient = SCPClient SSHClient

datatype event =
    EvConnectKey SSHClient string string string
  | EvConnectPassword SSHClient string string string
  | EvAuthNone SSHClient string
  | EvSleep nat
  | EvClose SSHClient
  | EvExec SSHClient string bool
  | EvScpClose SCPClient
  | EvPut SCPClient string string
  | EvGet SCPClient string string

text \<open>
  The first four fields are the attributes of the object; the status values are the
  integers of the source (2 connected, 1 disconnected, 0 connection failed).
  \<open>allocated\<close> counts the \<open>SSHClient\<close> objects created so far and \<open>transport_log\<close>
  lists, oldest first, the calls made into the libraries and the pauses taken.
\<close>

record handler =
  ssh_session :: "SSHClient option"
  scp_session :: "SCPClient option"
  ssh_connection_status :: int
  scp_connection_status :: int
  allocated :: nat
  transport_log :: "event list"

definition init :: handler where
  "init = \<lparr>ssh_session = None, scp_session = None,
           ssh_connection_status = 1, scp_connection_status = 1,
           allocated = 0, transport_log = []\<rparr>"

definition emit :: "event list \<Rightarrow> handler \<Rightarrow> handler" where
  "emit evs s = s\<lparr>transport_log := transport_log s @ evs\<rparr>"

subsection \<open>\<open>SSHConnect.ssh_connect\<close>\<close>

text \<open>
  What the remote side answers during one connection attempt: to
  \<open>SSHClient.connect\<close>, and to \<open>Transport.auth_none\<close> (asked only when no key is
  given; a missing transport there is an exception of \<open>auth_none_reply\<close>).
\<close>

record attempt_reply =
  connect_reply :: "unit outcome"
  auth_none_reply :: "unit outcome"

definition max_connection_attempts :: nat where
  "max_connection_attempts = 2"

definition retry_delay :: nat where
  "retry_delay = 1"

text \<open>
  Lines 127 to 130, the branch taken without a key: \<open>suppress\<close> swallows an
  \<open>AuthenticationException\<close> of \<open>connect\<close>, and \<open>auth_none\<close> is called next.
  The result is the library calls made and how the branch ends.
\<close>

definition connect_without_key ::
  "SSHClient \<Rightarrow> string \<Rightarrow> string \<Rightarrow> attempt_reply \<Rightarrow> event list \<times> unit outcome" where
  "connect_without_key c hostname username r =
     (case connect_reply r of
        Raises e \<Rightarrow>
          if e = AuthenticationException then
            ([EvConnectPassword c hostname username [], EvAuthNone c username],
             auth_none_reply r)
          else ([EvConnectPassword c hostname username []], Raises e)
      | Returns _ \<Rightarrow>
          ([EvConnectPassword c hostname username [], EvAuthNone c username],
           auth_none_reply r))"

text \<open>
  The body of the \<open>try\<close> of lines 124 to 130, up to the point where it has connected
  or an exception leaves it. \<open>if ssh_key_path:\<close> holds for a non-empty string;
  \<open>None\<close> and the empty string take the other branch.
\<close>

definition try_body ::
  "SSHClient \<Rightarrow> string \<Rightarrow> string \<Rightarrow> string option \<Rightarrow> attempt_reply
     \<Rightarrow> event list \<times> unit outcome" where
  "try_body c hostname username ssh_key_path r =
     (case ssh_key_path of
        None \<Rightarrow> connect_without_key c hostname username r
      | Some k \<Rightarrow>
          if k \<noteq> [] then ([EvConnectKey c hostname username k], connect_reply r)
          else connect_without_key c hostname username r)"

text \<open>How the \<open>for\<close> loop of lines 122 to 164 is left.\<close>

datatype loop_exit = Returned SSHClient | Raised error | Exhausted "exn option"

text \<open>
  The loop over \<open>range(max_connection_attempts)\<close>, with \<open>last_exception\<close> as an
  accumulator. The clauses for \<open>OSError\<close>, \<open>SSHException\<close> and \<open>Exception\<close> all
  store the exception and differ only in what they print.
\<close>

fun connect_attempts ::
  "SSHClient \<Rightarrow> string \<Rightarrow> string \<Rightarrow> string option \<Rightarrow> (nat \<Rightarrow> attempt_reply)
     \<Rightarrow> nat list \<Rightarrow> exn option \<Rightarrow> handler \<Rightarrow> loop_exit \<times> handler" where
  "connect_attempts c hostname username ssh_key_path replies [] last_exception s =
     (Exhausted last_exception, s)"
| "connect_attempts c hostname username ssh_key_path replies (connection_attempts # rest)
     last_exception s =
     (case try_body c hostname username ssh_key_path (replies connection_attempts) of
        (evs, Returns _) \<Rightarrow> (Returned c, (emit evs s)\<lparr>ssh_connection_status := 2\<rparr>)
      | (evs, Raises e) \<Rightarrow>
          if e = AuthenticationException then (Raised SSHAuthenticationError, emit evs s)
          else
            connect_attempts c hostname username ssh_key_path replies rest (Some e)
              (if connection_attempts < max_connection_attempts - 1
               then emit [EvSleep retry_delay] (emit evs s)
               else emit evs s))"

fun last_is_OSError :: "exn option \<Rightarrow> bool" where
  "last_is_OSError None = False"
| "last_is_OSError (Some e) = isinstance_OSError e"

fun last_is_SSHException :: "exn option \<Rightarrow> bool" where
  "last_is_SSHException None = False"
| "last_is_SSHException (Some e) = isinstance_SSHException e"

definition ssh_connect ::
  "handler \<Rightarrow> string \<Rightarrow> string \<Rightarrow> string option \<Rightarrow> bool \<Rightarrow> (nat \<Rightarrow> attempt_reply)
     \<Rightarrow> (error + SSHClient) \<times> handler" where
  "ssh_connect s hostname username ssh_key_path force_connect replies =
     (if ssh_connection_status s = 2 \<and> \<not> force_connect then
        (Inl SSHAlreadyConnectedError, s)
      else
        let c = SSHClient (allocated s);
            s0 = s\<lparr>ssh_session := Some c, allocated := Suc (allocated s)\<rparr>
        in
          case connect_attempts c hostname username ssh_key_path replies
                 [0..<max_connection_attempts] None s0 of
            (Returned c', s1) \<Rightarrow> (Inr c', s1)
          | (Raised err, s1) \<Rightarrow> (Inl err, s1)
          | (Exhausted last_exception, s1) \<Rightarrow>
              if last_is_OSError last_exception then
                (Inl NetworkError, s1\<lparr>ssh_connection_status := 0\<rparr>)
              else if last_is_SSHException last_exception then
                (Inl SSHConnectionError, s1\<lparr>ssh_connection_status := 0\<rparr>)
              else
                (Inl UnknownError, s1\<lparr>ssh_connection_status := 0\<rparr>))"

subsection \<open>\<open>ssh_disconnect\<close>, \<open>scp_connect\<close>, \<open>scp_disconnect\<close>, \<open>disconnect_all\<close>\<close>

text \<open>
  Lines 193 to 207. \<open>close_reply\<close> is what \<open>SSHClient.close\<close> does. The
  \<open>SSHConnectionError\<close> raised in the \<open>elif\<close> is not among the classes of the
  \<open>except\<close> clause, so it leaves the method as it is. A status other than 0, 1 and 2
  takes neither branch and the method returns \<open>None\<close>.
\<close>

definition ssh_disconnect :: "handler \<Rightarrow> unit outcome \<Rightarrow> (error + unit) \<times> handler" where
  "ssh_disconnect s close_reply =
     (if ssh_connection_status s = 2 then
        (case ssh_session s of
           None \<Rightarrow> (Inl (Uncaught AttributeError), s)
         | Some c \<Rightarrow>
             (case close_reply of
                Returns _ \<Rightarrow>
                  (Inr (), (emit [EvClose c] s)\<lparr>ssh_connection_status := 1, ssh_session := None\<rparr>)
              | Raises e \<Rightarrow>
                  if isinstance_SSHException e \<or> isinstance_OSError e
                  then (Inl SSHConnectionError, emit [EvClose c] s)
                  else (Inl (Uncaught e), emit [EvClose c] s)))
      else if ssh_connection_status s = 0 \<or> ssh_connection_status s = 1 then
        (Inl SSHConnectionError, s)
      else (Inr (), s))"

text \<open>
  Lines 226 to 249. \<open>build_reply\<close> is what the construction of the \<open>SCPClient\<close>
  on the client's transport does. The \<open>SCPConnectionError\<close> raised in the \<open>else\<close>
  of line 235 is inside the \<open>try\<close> and is an \<open>Exception\<close>: the clause of line 245
  catches it, stores status 0 again and raises \<open>SCPConnectionError\<close> anew. With status
  2 and no client object the method returns \<open>None\<close>.
\<close>

definition scp_connect ::
  "handler \<Rightarrow> unit outcome \<Rightarrow> (error + SCPClient option) \<times> handler" where
  "scp_connect s build_reply =
     (if ssh_connection_status s = 2 then
        (case ssh_session s of
           Some c \<Rightarrow>
             (case build_reply of
                Returns _ \<Rightarrow>
                  (Inr (Some (SCPClient c)),
                   s\<lparr>scp_session := Some (SCPClient c), scp_connection_status := 2\<rparr>)
              | Raises e \<Rightarrow> (Inl SCPConnectionError, s\<lparr>scp_connection_status := 0\<rparr>))
         | None \<Rightarrow> (Inr None, s))
      else
        (Inl SCPConnectionError,
         (s\<lparr>scp_connection_status := 0\<rparr>)\<lparr>scp_connection_status := 0\<rparr>))"

text \<open>
  Lines 266 to 283. Both \<open>except\<close> clauses raise \<open>SCPConnectionError\<close> and change
  no attribute; the second one also catches the \<open>SCPConnectionError\<close> of the
  \<open>elif\<close> and the \<open>AttributeError\<close> of a missing client object.
\<close>

definition scp_disconnect :: "handler \<Rightarrow> unit outcome \<Rightarrow> (error + unit) \<times> handler" where
  "scp_disconnect s close_reply =
     (if scp_connection_status s = 2 then
        (case scp_session s of
           None \<Rightarrow> (Inl SCPConnectionError, s)
         | Some sc \<Rightarrow>
             (case close_reply of
                Returns _ \<Rightarrow>
                  (Inr (),
                   (emit [EvScpClose sc] s)\<lparr>scp_connection_status := 1, scp_session := None\<rparr>)
              | Raises e \<Rightarrow> (Inl SCPConnectionError, emit [EvScpClose sc] s)))
      else if scp_connection_status s = 0 \<or> scp_connection_status s = 1 then
        (Inl SCPConnectionError, s)
      else (Inr (), s))"

text \<open>
  Lines 300 to 312: the \<open>except\<close> clause turns the two connection errors into
  \<open>SSHError\<close>; anything else passes through.
\<close>

fun wrap_disconnect_error :: "error \<Rightarrow> error" where
  "wrap_disconnect_error SCPConnectionError = SSHError"
| "wrap_disconnect_error SSHConnectionError = SSHError"
| "wrap_disconnect_error e = e"

definition disconnect_all ::
  "handler \<Rightarrow> unit outcome \<Rightarrow> unit outcome \<Rightarrow> (error + unit) \<times> handler" where
  "disconnect_all s scp_close_reply ssh_close_reply =
     (case (if scp_connection_status s = 2 then scp_disconnect s scp_close_reply
            else (Inr (), s)) of
        (Inl e, s1) \<Rightarrow> (Inl (wrap_disconnect_error e), s1)
      | (Inr _, s1) \<Rightarrow>
          (case (if ssh_connection_status s1 = 2 then ssh_disconnect s1 ssh_close_reply
                 else (Inr (), s1)) of
             (Inl e, s2) \<Rightarrow> (Inl (wrap_disconnect_error e), s2)
           | (Inr _, s2) \<Rightarrow> (Inr (), s2)))"

subsection \<open>\<open>SSHCommands\<close>\<close>

text \<open>
  Lines 334 to 341. \<open>exec_reply\<close> is what \<open>exec_command\<close> does; an exception of
  it is caught nowhere. The parameter \<open>parse\<close> may hold any Python value.
\<close>

definition execute_command ::
  "handler \<Rightarrow> string \<Rightarrow> 'p \<Rightarrow> unit outcome \<Rightarrow> (error + unit) \<times> handler" where
  "execute_command s command parse exec_reply =
     (if ssh_connection_status s = 2 then
        (case ssh_session s of
           None \<Rightarrow> (Inl (Uncaught AttributeError), s)
         | Some c \<Rightarrow>
             (case exec_reply of
                Returns _ \<Rightarrow> (Inr (), emit [EvExec c command False] s)
              | Raises e \<Rightarrow> (Inl (Uncaught e), emit [EvExec c command False] s)))
      else if ssh_connection_status s = 0 \<or> ssh_connection_status s = 1 then
        (Inl (ExecuteCommandError ''SSH Command execution failed: No SSH session available''), s)
      else (Inr (), s))"

text \<open>
  \<open>s.replace("\\n", "").replace("\\r", "")\<close>: every line feed is removed from the
  line, then every carriage return.
\<close>

definition strip_line :: "string \<Rightarrow> string" where
  "strip_line l = filter (\<lambda>ch. ch \<noteq> CHR 0x0D) (filter (\<lambda>ch. ch \<noteq> CHR 0x0A) l)"

text \<open>
  Lines 358 to 372. \<open>exec_reply\<close> is what \<open>exec_command\<close> with a pty and
  \<open>readlines\<close> on its output give: the lines read, or an exception, which is caught
  nowhere. The \<open>if\<close> has no \<open>else\<close>: with any other status the method returns
  \<open>None\<close>.
\<close>

definition execute_command_with_output ::
  "handler \<Rightarrow> string \<Rightarrow> string list outcome \<Rightarrow> (error + string list option) \<times> handler" where
  "execute_command_with_output s command exec_reply =
     (if ssh_connection_status s = 2 then
        (case ssh_session s of
           None \<Rightarrow> (Inl (Uncaught AttributeError), s)
         | Some c \<Rightarrow>
             (case exec_reply of
                Raises e \<Rightarrow> (Inl (Uncaught e), emit [EvExec c command True] s)
              | Returns output \<Rightarrow>
                  if output = [] then
                    (Inl (ExecuteCommandError ''The command did not return any output''),
                     emit [EvExec c command True] s)
                  else (Inr (Some (map strip_line output)), emit [EvExec c command True] s)))
      else (Inr None, s))"

text \<open>
  Lines 390 to 410. \<open>exec_reply\<close> holds the lines read and the integer that
  \<open>recv_exit_status\<close> returns, or an exception of one of the calls on the channel.
  \<open>not exit_status\<close> holds for the integer 0.
\<close>

definition execute_command_with_exit_status ::
  "handler \<Rightarrow> string \<Rightarrow> (string list \<times> int) outcome
     \<Rightarrow> (error + (string list \<times> int) option) \<times> handler" where
  "execute_command_with_exit_status s command exec_reply =
     (if ssh_connection_status s = 2 then
        (case ssh_session s of
           None \<Rightarrow> (Inl (Uncaught AttributeError), s)
         | Some c \<Rightarrow>
             (case exec_reply of
                Raises e \<Rightarrow> (Inl (Uncaught e), emit [EvExec c command True] s)
              | Returns (output, exit_status) \<Rightarrow>
                  if output = [] then
                    (Inl (ExecuteCommandError ''The command did not return any output''),
                     emit [EvExec c command True] s)
                  else if exit_status = 0 then
                    (Inl (ExecuteCommandError ''The command did not return an exit status''),
                     emit [EvExec c command True] s)
                  else
                    (Inr (Some (map strip_line output, exit_status)),
                     emit [EvExec c command True] s)))
      else (Inr None, s))"

subsection \<open>\<open>SCPFileTransfer\<close>\<close>

text \<open>The \<open>except\<close> clauses of \<open>push_file\<close> (lines 449 to 469), in their order.\<close>

definition push_error :: "exn \<Rightarrow> error" where
  "push_error e =
     (if e = FileNotFoundError then SCPTransferError ''Local file not found''
      else if e = PermissionError then SCPTransferError ''Permission denied''
      else if e = TimeoutError then SCPTransferError ''SCP operation timed out''
      else if isinstance_OSError e then SCPTransferError ''Unknown OS error''
      else if e = SCPException then SCPTransferError ''Remote path does not exist''
      else if isinstance_SSHException e then
        SCPTransferError ''SSH Connection failed during SCP Put''
      else SCPTransferError ''Unexpected exception occurred during SCP Put'')"

text \<open>
  Lines 441 to 469. \<open>put_reply\<close> is what \<open>SCPClient.put\<close> does. A missing client
  object is an \<open>AttributeError\<close> inside the \<open>try\<close>, which the last clause catches.
\<close>

definition push_file ::
  "handler \<Rightarrow> string \<Rightarrow> string \<Rightarrow> unit outcome \<Rightarrow> (error + unit) \<times> handler" where
  "push_file s local_path remote_path put_reply =
     (if scp_connection_status s \<noteq> 2 then (Inl SCPConnectionError, s)
      else
        (case scp_session s of
           None \<Rightarrow> (Inl (push_error AttributeError), s)
         | Some sc \<Rightarrow>
             (case put_reply of
                Returns _ \<Rightarrow> (Inr (), emit [EvPut sc local_path remote_path] s)
              | Raises e \<Rightarrow> (Inl (push_error e), emit [EvPut sc local_path remote_path] s))))"

text \<open>The \<open>except\<close> clauses of \<open>pull_file\<close> (lines 521 to 542), in their order.\<close>

definition pull_error :: "exn \<Rightarrow> error" where
  "pull_error e =
     (if e = SCPException then SCPTransferError ''Unknown SCP error occurred''
      else if isinstance_SSHException e then
        SCPTransferError ''SSH error occurred during SCP operation''
      else if e = PermissionError then SCPTransferError ''Permission denied''
      else if e = FileNotFoundError then SCPTransferError ''Local path does not exist''
      else if e = TimeoutError then SCPTransferError ''SCP operation timed out''
      else if isinstance_OSError e then SCPTransferError ''Unknown OS error''
      else SCPTransferError ''Unexpected error occurred during SCP operation'')"

definition pull_file ::
  "handler \<Rightarrow> string \<Rightarrow> string \<Rightarrow> unit outcome \<Rightarrow> (error + unit) \<times> handler" where
  "pull_file s local_path remote_path get_reply =
     (if scp_connection_status s \<noteq> 2 then (Inl SCPConnectionError, s)
      else
        (case scp_session s of
           None \<Rightarrow> (Inl (pull_error AttributeError), s)
         | Some sc \<Rightarrow>
             (case get_reply of
                Returns _ \<Rightarrow> (Inr (), emit [EvGet sc remote_path local_path] s)
              | Raises e \<Rightarrow> (Inl (pull_error e), emit [EvGet sc remote_path local_path] s))))"

subsection \<open>Sequences of calls\<close>

text \<open>
  A call of a public method together with what the libraries answer during it, the
  state a call leaves (whether it returns or raises), and the state a sequence of calls
  leaves. \<open>execute_command\<close> is run with \<open>()\<close> for \<open>parse\<close>.
\<close>

datatype call =
    Ssh_connect string string "string option" bool "nat \<Rightarrow> attempt_reply"
  | Ssh_disconnect "unit outcome"
  | Scp_connect "unit outcome"
  | Scp_disconnect "unit outcome"
  | Disconnect_all "unit outcome" "unit outcome"
  | Execute_command string "unit outcome"
  | Execute_command_with_output string "string list outcome"
  | Execute_command_with_exit_status string "(string list \<times> int) outcome"
  | Push_file string string "unit outcome"
  | Pull_file string string "unit outcome"

fun after_call :: "handler \<Rightarrow> call \<Rightarrow> handler" where
  "after_call s (Ssh_connect hostname username ssh_key_path force_connect replies) =
     snd (ssh_connect s hostname username ssh_key_path force_connect replies)"
| "after_call s (Ssh_disconnect r) = snd (ssh_disconnect s r)"
| "after_call s (Scp_connect r) = snd (scp_connect s r)"
| "after_call s (Scp_disconnect r) = snd (scp_disconnect s r)"
| "after_call s (Disconnect_all r1 r2) = snd (disconnect_all s r1 r2)"
| "after_call s (Execute_command command r) = snd (execute_command s command () r)"
| "after_call s (Execute_command_with_output command r) =
     snd (execute_command_with_output s command r)"
| "after_call s (Execute_command_with_exit_status command r) =
     snd (execute_command_with_exit_status s command r)"
| "after_call s (Push_file local_path remote_path r) =
     snd (push_file s local_path remote_path r)"
| "after_call s (Pull_file local_path remote_path r) =
     snd (pull_file s local_path remote_path r)"

definition after_calls :: "handler \<Rightarrow> call list \<Rightarrow> handler" where
  "after_calls s cs = foldl after_call s cs"

text \<open>
  The reading of the status fields that the methods rely on: with status 2 the matching
  client object is there.
\<close>

definition handles_present :: "handler \<Rightarrow> bool" where
  "handles_present s =
     ((ssh_connection_status s = 2 \<longrightarrow> ssh_session s \<noteq> None) \<and>
      (scp_connection_status s = 2 \<longrightarrow> scp_session s \<noteq> None))"

subsection \<open>Reading the log\<close>

text \<open>The library calls that open a connection, and the pauses.\<close>

fun is_connect :: "event \<Rightarrow> bool" where
  "is_connect (EvConnectKey c h u k) = True"
| "is_connect (EvConnectPassword c h u p) = True"
| "is_connect _ = False"

fun is_sleep :: "event \<Rightarrow> bool" where
  "is_sleep (EvSleep n) = True"
| "is_sleep _ = False"

subsection \<open>Replies and states used as examples\<close>

definition accepted :: attempt_reply where
  "accepted = \<lparr>connect_reply = Returns (), auth_none_reply = Returns ()\<rparr>"

definition raising :: "exn \<Rightarrow> attempt_reply" where
  "raising e = \<lparr>connect_reply = Raises e, auth_none_reply = Returns ()\<rparr>"

definition every_attempt :: "attempt_reply \<Rightarrow> nat \<Rightarrow> attempt_reply" where
  "every_attempt r i = r"

definition first_then :: "attempt_reply \<Rightarrow> attempt_reply \<Rightarrow> nat \<Rightarrow> attempt_reply" where
  "first_then r0 r1 i = (if i = 0 then r0 else r1)"

text \<open>
  A handler that has connected with a key; one that has then opened the scp session;
  one that has connected and disconnected again.
\<close>

definition st_connected :: handler where
  "st_connected =
     after_calls init
       [Ssh_connect ''198.18.0.171'' ''root'' (Some ''./axiom_rsa.key'') False
          (every_attempt accepted)]"

definition st_scp_open :: handler where
  "st_scp_open = after_calls st_connected [Scp_connect (Returns ())]"

definition st_disconnected :: handler where
  "st_disconnected = after_calls st_connected [Ssh_disconnect (Returns ())]"

text \<open>A handler whose first connection, without a key, met an unreachable network.\<close>

definition st_failed :: handler where
  "st_failed =
     after_calls init
       [Ssh_connect ''10.0.0.5'' ''root'' None False (every_attempt (raising OSError))]"

section \<open>Properties\<close>

subsection \<open>The example states, evaluated\<close>

lemma upt_attempts: "[0..<max_connection_attempts] = [0, Suc 0]"
  by (simp add: max_connection_attempts_def upt_rec)

text \<open>\<open>ssh_connect\<close> with its range of attempts written out.\<close>

lemma ssh_connect_two:
  "ssh_connect s hostname username ssh_key_path force_connect replies =
     (if ssh_connection_status s = 2 \<and> \<not> force_connect then
        (Inl SSHAlreadyConnectedError, s)
      else
        let c = SSHClient (allocated s);
            s0 = s\<lparr>ssh_session := Some c, allocated := Suc (allocated s)\<rparr>
        in
          case connect_attempts c hostname username ssh_key_path replies [0, Suc 0] None s0 of
            (Returned c', s1) \<Rightarrow> (Inr c', s1)
          | (Raised err, s1) \<Rightarrow> (Inl err, s1)
          | (Exhausted last_exception, s1) \<Rightarrow>
              if last_is_OSError last_exception then
                (Inl NetworkError, s1\<lparr>ssh_connection_status := 0\<rparr>)
              else if last_is_SSHException last_exception then
                (Inl SSHConnectionError, s1\<lparr>ssh_connection_status := 0\<rparr>)
              else
                (Inl UnknownError, s1\<lparr>ssh_connection_status := 0\<rparr>))"
  by (simp only: ssh_connect_def upt_attempts)

lemma st_connected_eq:
  "st_connected =
     \<lparr>ssh_session = Some (SSHClient 0), scp_session = None,
      ssh_connection_status = 2, scp_connection_status = 1,
      allocated = Suc 0,
      transport_log =
        [EvConnectKey (SSHClient 0) ''198.18.0.171'' ''root'' ''./axiom_rsa.key'']\<rparr>"
  by (simp add: st_connected_def after_calls_def ssh_connect_def init_def upt_attempts
        try_body_def every_attempt_def accepted_def emit_def Let_def)

lemma st_scp_open_eq:
  "st_scp_open =
     \<lparr>ssh_session = Some (SSHClient 0), scp_session = Some (SCPClient (SSHClient 0)),
      ssh_connection_status = 2, scp_connection_status = 2,
      allocated = Suc 0,
      transport_log =
        [EvConnectKey (SSHClient 0) ''198.18.0.171'' ''root'' ''./axiom_rsa.key'']\<rparr>"
  by (simp add: st_scp_open_def st_connected_eq after_calls_def scp_connect_def)

lemma st_disconnected_eq:
  "st_disconnected =
     \<lparr>ssh_session = None, scp_session = None,
      ssh_connection_status = 1, scp_connection_status = 1,
      allocated = Suc 0,
      transport_log =
        [EvConnectKey (SSHClient 0) ''198.18.0.171'' ''root'' ''./axiom_rsa.key'',
         EvClose (SSHClient 0)]\<rparr>"
  by (simp add: st_disconnected_def st_connected_eq after_calls_def ssh_disconnect_def emit_def)

lemma st_failed_eq:
  "st_failed =
     \<lparr>ssh_session = Some (SSHClient 0), scp_session = None,
      ssh_connection_status = 0, scp_connection_status = 1,
      allocated = Suc 0,
      transport_log =
        [EvConnectPassword (SSHClient 0) ''10.0.0.5'' ''root'' [], EvSleep 1,
         EvConnectPassword (SSHClient 0) ''10.0.0.5'' ''root'' []]\<rparr>"
  by (simp add: st_failed_def after_calls_def ssh_connect_two init_def try_body_def
        connect_without_key_def every_attempt_def raising_def emit_def Let_def
        max_connection_attempts_def retry_delay_def)

lemma st_scp_open_calls:
  "st_scp_open =
     after_calls init
       [Ssh_connect ''198.18.0.171'' ''root'' (Some ''./axiom_rsa.key'') False
          (every_attempt accepted),
        Scp_connect (Returns ())]"
  by (simp add: st_scp_open_def st_connected_def after_calls_def)

subsection \<open>Connecting twice\<close>

text \<open>
  Claim C7. When the status is 2 (connected) and \<open>ssh_connect\<close> is called with
  \<open>force_connect\<close> false, it raises \<open>SSHAlreadyConnectedError\<close> and leaves the whole
  state as it was: the stored client object is the same one, no new object has been
  created and nothing has been added to the log of library calls.
\<close>

theorem ssh_connect_already_connected:
  "ssh_connection_status s = 2 \<Longrightarrow>
     ssh_connect s hostname username ssh_key_path False replies =
       (Inl SSHAlreadyConnectedError, s)"
  by (simp add: ssh_connect_def)

theorem ssh_connect_already_connected_witness:
  "ssh_connection_status st_connected = 2 \<and>
   ssh_connect st_connected ''198.18.0.171'' ''root'' (Some ''./axiom_rsa.key'') False
       (every_attempt accepted) =
     (Inl SSHAlreadyConnectedError, st_connected) \<and>
   ssh_session st_connected = Some (SSHClient 0)"
  using ssh_connect_already_connected [of st_connected "''198.18.0.171''" "''root''"
      "Some ''./axiom_rsa.key''" "every_attempt accepted"]
  by (simp add: st_connected_eq)

subsection \<open>The unused parameter of \<open>execute_command\<close>\<close>

text \<open>
  Claim C10. The parameter \<open>parse\<close> of \<open>execute_command\<close> has no effect: two calls
  that differ only in its value (of whatever types) give the same result or error and
  leave the same state.
\<close>

theorem execute_command_parse_unused:
  "execute_command s command parse exec_reply = execute_command s command parse' exec_reply"
  by (simp add: execute_command_def)

subsection \<open>Captured output without a connection\<close>

text \<open>
  Claim C1 says that \<open>execute_command_with_output\<close> and
  \<open>execute_command_with_exit_status\<close> raise \<open>ExecuteCommandError\<close> when the status
  is not 2. On a handler that has connected and disconnected again (status 1) both return
  \<open>None\<close> instead, raising nothing; they leave the state and the log untouched. Their
  sibling \<open>execute_command\<close> raises \<open>ExecuteCommandError\<close> in the same state.
\<close>

theorem captured_output_not_connected_returns_None:
  "execute_command_with_output st_disconnected ''ls'' (Returns [''ok'']) =
     (Inr None, st_disconnected) \<and>
   execute_command_with_exit_status st_disconnected ''ls'' (Returns ([''ok''], 1)) =
     (Inr None, st_disconnected) \<and>
   execute_command st_disconnected ''ls'' () (Returns ()) =
     (Inl (ExecuteCommandError ''SSH Command execution failed: No SSH session available''),
      st_disconnected)"
  by (simp add: st_disconnected_eq execute_command_with_output_def
        execute_command_with_exit_status_def execute_command_def)

subsection \<open>With status 2 the client object is there\<close>

text \<open>
  No method stores status 2 without the matching client object, and none removes the
  object without leaving status 2; so \<open>handles_present\<close> holds in every state that
  calls of the public methods reach from a new object.
\<close>

lemma connect_attempts_keeps:
  "connect_attempts c h u k replies js le s = (x, s') \<Longrightarrow>
     ssh_session s' = ssh_session s \<and> scp_session s' = scp_session s \<and>
     scp_connection_status s' = scp_connection_status s \<and> allocated s' = allocated s"
proof (induction js arbitrary: le s)
  case Nil
  then show ?case by simp
next
  case (Cons j js)
  obtain evs res where tb: "try_body c h u k (replies j) = (evs, res)"
    by (cases "try_body c h u k (replies j)")
  show ?case
  proof (cases res)
    case (Returns v)
    with Cons.prems tb show ?thesis by (auto simp: emit_def)
  next
    case (Raises e)
    show ?thesis
    proof (cases "e = AuthenticationException")
      case True
      with Cons.prems tb Raises show ?thesis by (auto simp: emit_def)
    next
      case False
      with Cons.prems tb Raises
      have "connect_attempts c h u k replies js (Some e)
              (if j < max_connection_attempts - 1
               then emit [EvSleep retry_delay] (emit evs s) else emit evs s) = (x, s')"
        by simp
      from Cons.IH [OF this] show ?thesis by (simp add: emit_def split: if_splits)
    qed
  qed
qed

lemma ssh_connect_handles:
  assumes "handles_present s"
  shows "handles_present (snd (ssh_connect s h u k f replies))"
proof (cases "ssh_connection_status s = 2 \<and> \<not> f")
  case True
  with assms show ?thesis by (simp add: ssh_connect_def)
next
  case False
  define s0 where "s0 = s\<lparr>ssh_session := Some (SSHClient (allocated s)), allocated := Suc (allocated s)\<rparr>"
  obtain x s1 where ca: "connect_attempts (SSHClient (allocated s)) h u k replies
       [0..<max_connection_attempts] None s0 = (x, s1)"
    by (cases "connect_attempts (SSHClient (allocated s)) h u k replies
       [0..<max_connection_attempts] None s0")
  from connect_attempts_keeps [OF ca]
  have k: "ssh_session s1 = Some (SSHClient (allocated s))" "scp_session s1 = scp_session s"
    "scp_connection_status s1 = scp_connection_status s"
    by (simp_all add: s0_def)
  from False ca have "snd (ssh_connect s h u k f replies) = s1 \<or>
      snd (ssh_connect s h u k f replies) = s1\<lparr>ssh_connection_status := 0\<rparr>"
    by (cases x) (auto simp: ssh_connect_def Let_def s0_def)
  with k assms show ?thesis by (auto simp: handles_present_def)
qed

lemma ssh_disconnect_handles:
  "handles_present s \<Longrightarrow> handles_present (snd (ssh_disconnect s r))"
  by (auto simp: handles_present_def ssh_disconnect_def emit_def split: option.splits outcome.splits)

lemma scp_connect_handles:
  "handles_present s \<Longrightarrow> handles_present (snd (scp_connect s r))"
  by (auto simp: handles_present_def scp_connect_def split: option.splits outcome.splits)

lemma scp_disconnect_handles:
  "handles_present s \<Longrightarrow> handles_present (snd (scp_disconnect s r))"
  by (auto simp: handles_present_def scp_disconnect_def emit_def split: option.splits outcome.splits)

lemma disconnect_all_handles:
  assumes "handles_present s"
  shows "handles_present (snd (disconnect_all s r1 r2))"
proof -
  define p1 where "p1 = (if scp_connection_status s = 2 then scp_disconnect s r1 else (Inr (), s))"
  have h1: "handles_present (snd p1)"
    using assms scp_disconnect_handles [of s r1] by (simp add: p1_def)
  define p2 where "p2 = (if ssh_connection_status (snd p1) = 2 then ssh_disconnect (snd p1) r2
                         else (Inr (), snd p1))"
  have h2: "handles_present (snd p2)"
    using h1 ssh_disconnect_handles [of "snd p1" r2] by (simp add: p2_def)
  have "snd (disconnect_all s r1 r2) = snd p1 \<or> snd (disconnect_all s r1 r2) = snd p2"
    unfolding disconnect_all_def p1_def [symmetric]
    by (cases p1; cases p2) (auto simp: p2_def split: sum.splits)
  with h1 h2 show ?thesis by auto
qed

lemma execute_handles:
  "handles_present s \<Longrightarrow> handles_present (snd (execute_command s cmd p r))"
  "handles_present s \<Longrightarrow> handles_present (snd (execute_command_with_output s cmd r1))"
  "handles_present s \<Longrightarrow> handles_present (snd (execute_command_with_exit_status s cmd r2))"
  by (auto simp: handles_present_def execute_command_def execute_command_with_output_def
        execute_command_with_exit_status_def emit_def split: option.splits outcome.splits)

lemma transfer_handles:
  "handles_present s \<Longrightarrow> handles_present (snd (push_file s l rp r))"
  "handles_present s \<Longrightarrow> handles_present (snd (pull_file s l rp r))"
  by (auto simp: handles_present_def push_file_def pull_file_def emit_def
        split: option.splits outcome.splits)

lemma after_call_handles:
  "handles_present s \<Longrightarrow> handles_present (after_call s c)"
  by (cases c)
     (simp_all add: ssh_connect_handles ssh_disconnect_handles scp_connect_handles
        scp_disconnect_handles disconnect_all_handles execute_handles transfer_handles)

lemma after_calls_handles:
  "handles_present s \<Longrightarrow> handles_present (after_calls s cs)"
  unfolding after_calls_def
  by (induction cs arbitrary: s) (simp_all add: after_call_handles)

lemma init_handles: "handles_present init"
  by (simp add: handles_present_def init_def)

lemma reachable_ssh_client:
  "ssh_connection_status (after_calls init cs) = 2 \<Longrightarrow>
     \<exists>c. ssh_session (after_calls init cs) = Some c"
  using after_calls_handles [OF init_handles, of cs] by (auto simp: handles_present_def)

lemma reachable_scp_client:
  "scp_connection_status (after_calls init cs) = 2 \<Longrightarrow>
     \<exists>sc. scp_session (after_calls init cs) = Some sc"
  using after_calls_handles [OF init_handles, of cs] by (auto simp: handles_present_def)

subsection \<open>The client object and the status\<close>

text \<open>
  Claim C2 says that after every call the stored client object is there if and only if
  the status is 2. \<open>ssh_connect\<close> stores the new client object (line 114) before the
  first attempt and never takes it away again, so after a connection that failed on
  both attempts the object is there with status 0.
\<close>

theorem failed_connect_keeps_client_counterexample:
  "ssh_session st_failed \<noteq> None \<and> ssh_connection_status st_failed \<noteq> 2"
  by (simp add: st_failed_eq)

text \<open>
  Claim C2, as amended: in every state that a sequence of public calls reaches from a
  new object, whether the calls returned or raised, status 2 implies that the stored
  client object is there. (The converse is what fails.)
\<close>

theorem connected_has_client:
  "ssh_connection_status (after_calls init cs) = 2 \<Longrightarrow>
     ssh_session (after_calls init cs) \<noteq> None"
  using after_calls_handles [OF init_handles, of cs] by (simp add: handles_present_def)

theorem connected_has_client_witness:
  "ssh_connection_status st_connected = 2 \<and> ssh_session st_connected \<noteq> None"
  using connected_has_client [of "[Ssh_connect ''198.18.0.171'' ''root''
      (Some ''./axiom_rsa.key'') False (every_attempt accepted)]", folded st_connected_def]
  by (simp add: st_connected_eq)

subsection \<open>Captured output with exit status\<close>

text \<open>
  Claim C6. On a connected handler, when \<open>exec_command\<close> has given its output and
  exit status, \<open>execute_command_with_exit_status\<close> raises \<open>ExecuteCommandError\<close>
  exactly when the output has no line or the exit status is 0; in particular an exit
  status of 0 with some output raises "The command did not return an exit status"
  instead of returning the lines with 0.
\<close>

theorem exit_status_zero_raises:
  "ssh_connection_status (after_calls init cs) = 2 \<Longrightarrow>
     ((\<exists>msg. fst (execute_command_with_exit_status (after_calls init cs) command
                   (Returns (output, exit_status))) = Inl (ExecuteCommandError msg))
        = (output = [] \<or> exit_status = 0)) \<and>
     (output \<noteq> [] \<longrightarrow>
        fst (execute_command_with_exit_status (after_calls init cs) command
               (Returns (output, 0))) =
          Inl (ExecuteCommandError ''The command did not return an exit status''))"
proof -
  assume connected: "ssh_connection_status (after_calls init cs) = 2"
  from reachable_ssh_client [OF connected] obtain c
    where "ssh_session (after_calls init cs) = Some c" ..
  with connected show ?thesis
    by (simp add: execute_command_with_exit_status_def)
qed

theorem exit_status_zero_raises_witness:
  "ssh_connection_status st_connected = 2 \<and>
   fst (execute_command_with_exit_status st_connected ''ls /mnt/internal_slot1''
          (Returns ([''test.txt'' @ [CHR 0x0D, CHR 0x0A]], 0))) =
     Inl (ExecuteCommandError ''The command did not return an exit status'') \<and>
   fst (execute_command_with_exit_status st_connected ''ls /mnt/internal_slot1''
          (Returns ([''test.txt'' @ [CHR 0x0D, CHR 0x0A]], 2))) =
     Inr (Some ([''test.txt''], 2))"
  using exit_status_zero_raises [of "[Ssh_connect ''198.18.0.171'' ''root''
      (Some ''./axiom_rsa.key'') False (every_attempt accepted)]"
      "''ls /mnt/internal_slot1''" "[''test.txt'' @ [CHR 0x0D, CHR 0x0A]]" 0,
      folded st_connected_def]
  by (simp add: st_connected_eq execute_command_with_exit_status_def strip_line_def)

subsection \<open>Captured output\<close>

lemma strip_line_filter:
  "strip_line l = filter (\<lambda>ch. ch \<noteq> CHR 0x0A \<and> ch \<noteq> CHR 0x0D) l"
  by (simp add: strip_line_def conj_commute)

lemma strip_line_terminated:
  assumes "CHR 0x0A \<notin> set body" and "CHR 0x0D \<notin> set body"
  shows "strip_line (body @ [CHR 0x0D, CHR 0x0A]) = body"
    and "strip_line (body @ [CHR 0x0A]) = body"
  using assms by (auto simp: strip_line_def filter_id_conv)

text \<open>
  Claim C8. On a connected handler, when \<open>exec_command\<close> has given its output,
  \<open>execute_command_with_output\<close> raises \<open>ExecuteCommandError\<close> exactly when there
  is no output line, and otherwise returns the lines in their order, each with its line
  terminators removed: every line feed and carriage return of the line is dropped, so a
  line that ends in CR LF or in LF and has no other such character comes back without
  its ending.
\<close>

theorem execute_command_with_output_lines:
  "ssh_connection_status (after_calls init cs) = 2 \<Longrightarrow>
     ((\<exists>msg. fst (execute_command_with_output (after_calls init cs) command
                   (Returns output)) = Inl (ExecuteCommandError msg))
        = (output = [])) \<and>
     (output \<noteq> [] \<longrightarrow>
        fst (execute_command_with_output (after_calls init cs) command (Returns output)) =
          Inr (Some (map strip_line output))) \<and>
     (\<forall>l. strip_line l = filter (\<lambda>ch. ch \<noteq> CHR 0x0A \<and> ch \<noteq> CHR 0x0D) l) \<and>
     (\<forall>body. CHR 0x0A \<notin> set body \<and> CHR 0x0D \<notin> set body \<longrightarrow>
        strip_line (body @ [CHR 0x0D, CHR 0x0A]) = body \<and>
        strip_line (body @ [CHR 0x0A]) = body)"
proof -
  assume connected: "ssh_connection_status (after_calls init cs) = 2"
  from reachable_ssh_client [OF connected] obtain c
    where "ssh_session (after_calls init cs) = Some c" ..
  with connected show ?thesis
    by (simp add: execute_command_with_output_def strip_line_filter [symmetric]
          strip_line_terminated)
qed

theorem execute_command_with_output_lines_witness:
  "ssh_connection_status st_connected = 2 \<and>
   fst (execute_command_with_output st_connected ''echo ok''
          (Returns [''ok'' @ [CHR 0x0D, CHR 0x0A]])) = Inr (Some [''ok'']) \<and>
   fst (execute_command_with_output st_connected ''true'' (Returns [])) =
     Inl (ExecuteCommandError ''The command did not return any output'')"
  using execute_command_with_output_lines [of "[Ssh_connect ''198.18.0.171'' ''root''
      (Some ''./axiom_rsa.key'') False (every_attempt accepted)]"
      "''echo ok''" "[''ok'' @ [CHR 0x0D, CHR 0x0A]]", folded st_connected_def]
  by (simp add: st_connected_eq execute_command_with_output_def strip_line_def)

subsection \<open>Transfers\<close>

text \<open>
  Claim C9. With an scp status other than 2, \<open>push_file\<close> and \<open>pull_file\<close> raise
  \<open>SCPConnectionError\<close> and leave the state, the log of library calls included, as
  it was. In a reachable state with scp status 2, a \<open>push_file\<close> whose \<open>put\<close>
  raises \<open>FileNotFoundError\<close> raises \<open>SCPTransferError\<close> with the message
  "Local file not found".
\<close>

theorem transfer_preconditions:
  "(scp_connection_status s \<noteq> 2 \<longrightarrow>
      push_file s local_path remote_path put_reply = (Inl SCPConnectionError, s) \<and>
      pull_file s local_path remote_path get_reply = (Inl SCPConnectionError, s)) \<and>
   (scp_connection_status (after_calls init cs) = 2 \<longrightarrow>
      fst (push_file (after_calls init cs) local_path remote_path (Raises FileNotFoundError)) =
        Inl (SCPTransferError ''Local file not found''))"
proof -
  have "fst (push_file (after_calls init cs) local_path remote_path (Raises FileNotFoundError)) =
        Inl (SCPTransferError ''Local file not found'')"
    if open_channel: "scp_connection_status (after_calls init cs) = 2"
  proof -
    from reachable_scp_client [OF open_channel] obtain sc
      where "scp_session (after_calls init cs) = Some sc" ..
    with open_channel show ?thesis by (simp add: push_file_def push_error_def)
  qed
  then show ?thesis by (simp add: push_file_def pull_file_def)
qed

theorem transfer_preconditions_witness:
  "scp_connection_status st_connected \<noteq> 2 \<and>
   push_file st_connected ''./test.txt'' ''/mnt/internal_slot1/'' (Returns ()) =
     (Inl SCPConnectionError, st_connected) \<and>
   pull_file st_connected ''./'' ''/mnt/internal_slot1/test.txt'' (Returns ()) =
     (Inl SCPConnectionError, st_connected) \<and>
   scp_connection_status st_scp_open = 2 \<and>
   fst (push_file st_scp_open ''./missing.txt'' ''/mnt/internal_slot1/''
          (Raises FileNotFoundError)) =
     Inl (SCPTransferError ''Local file not found'')"
  using transfer_preconditions [of st_connected "''./test.txt''" "''/mnt/internal_slot1/''"
      "Returns ()" "Returns ()" "[]"]
    transfer_preconditions [of st_connected "''./''" "''/mnt/internal_slot1/test.txt''"
      "Returns ()" "Returns ()" "[]"]
    transfer_preconditions [of init "''./missing.txt''" "''/mnt/internal_slot1/''"
      "Returns ()" "Returns ()"
      "[Ssh_connect ''198.18.0.171'' ''root'' (Some ''./axiom_rsa.key'') False
          (every_attempt accepted), Scp_connect (Returns ())]", folded st_scp_open_calls]
  by (simp add: st_connected_eq st_scp_open_eq)

subsection \<open>Facts about the log and the transfer errors\<close>

lemma emit_append: "emit ys (emit xs s) = emit (xs @ ys) s"
  by (simp add: emit_def)

lemma try_body_one_connect:
  "try_body c h u k r = (evs, res) \<Longrightarrow>
     length (filter is_connect evs) = 1 \<and> filter is_sleep evs = []"
  by (auto simp: try_body_def connect_without_key_def split: option.splits outcome.splits if_splits)

lemma push_error_not_connection: "push_error e \<noteq> SCPConnectionError"
  by (simp add: push_error_def)

lemma pull_error_not_connection: "pull_error e \<noteq> SCPConnectionError"
  by (simp add: pull_error_def)

subsection \<open>Closing the ssh session under an open scp session\<close>

text \<open>
  Claim C3 says that a successful \<open>ssh_disconnect\<close> while the scp status is 2 leaves
  the scp status different from 2, so that a later \<open>push_file\<close> fails its check
  instead of copying. \<open>ssh_disconnect\<close> writes no scp attribute: on a handler with
  both sessions open the scp status is still 2 afterwards, and a \<open>push_file\<close> then
  calls \<open>put\<close> on the stored scp client; when the closed transport makes that call
  raise, the caller sees \<open>SCPTransferError\<close>, not \<open>SCPConnectionError\<close>.
\<close>

theorem ssh_disconnect_leaves_scp_open_counterexample:
  "fst (ssh_disconnect st_scp_open (Returns ())) = Inr () \<and>
   scp_connection_status (snd (ssh_disconnect st_scp_open (Returns ()))) = 2 \<and>
   fst (push_file (snd (ssh_disconnect st_scp_open (Returns ())))
          ''./test.txt'' ''/mnt/internal_slot1/'' (Raises SSHException)) =
     Inl (SCPTransferError ''SSH Connection failed during SCP Put'') \<and>
   transport_log (snd (push_file (snd (ssh_disconnect st_scp_open (Returns ())))
          ''./test.txt'' ''/mnt/internal_slot1/'' (Raises SSHException))) =
     [EvConnectKey (SSHClient 0) ''198.18.0.171'' ''root'' ''./axiom_rsa.key'',
      EvClose (SSHClient 0),
      EvPut (SCPClient (SSHClient 0)) ''./test.txt'' ''/mnt/internal_slot1/'']"
  by (simp add: st_scp_open_eq ssh_disconnect_def push_file_def push_error_def emit_def)

text \<open>
  Claim C3, as amended: after a successful \<open>ssh_disconnect\<close> in a reachable state
  where both statuses are 2, the ssh status is 1 while the scp status is still 2 and the
  scp client is the one stored before; a later \<open>push_file\<close> or \<open>pull_file\<close> passes
  its check, makes its library call on that client and does not raise
  \<open>SCPConnectionError\<close>.
\<close>

theorem ssh_disconnect_keeps_scp:
  assumes "ssh_connection_status (after_calls init cs) = 2"
    and "scp_connection_status (after_calls init cs) = 2"
    and "s' = snd (ssh_disconnect (after_calls init cs) (Returns ()))"
  shows "fst (ssh_disconnect (after_calls init cs) (Returns ())) = Inr () \<and>
         ssh_connection_status s' = 1 \<and>
         scp_connection_status s' = 2 \<and>
         scp_session s' = scp_session (after_calls init cs) \<and>
         (\<exists>sc. scp_session s' = Some sc \<and>
            fst (push_file s' local_path remote_path put_reply) \<noteq> Inl SCPConnectionError \<and>
            snd (push_file s' local_path remote_path put_reply) =
              emit [EvPut sc local_path remote_path] s' \<and>
            fst (pull_file s' local_path remote_path get_reply) \<noteq> Inl SCPConnectionError \<and>
            snd (pull_file s' local_path remote_path get_reply) =
              emit [EvGet sc remote_path local_path] s')"
proof -
  from reachable_ssh_client [OF assms(1)] obtain c
    where c: "ssh_session (after_calls init cs) = Some c" ..
  from reachable_scp_client [OF assms(2)] obtain sc
    where sc: "scp_session (after_calls init cs) = Some sc" ..
  have s': "s' = (emit [EvClose c] (after_calls init cs))
                   \<lparr>ssh_connection_status := 1, ssh_session := None\<rparr>"
    and ok: "fst (ssh_disconnect (after_calls init cs) (Returns ())) = Inr ()"
    using assms(1,3) c by (simp_all add: ssh_disconnect_def)
  have fields: "ssh_connection_status s' = 1" "scp_connection_status s' = 2"
    "scp_session s' = Some sc"
    using assms(2) sc by (simp_all add: s' emit_def)
  have push: "fst (push_file s' local_path remote_path put_reply) \<noteq> Inl SCPConnectionError"
    "snd (push_file s' local_path remote_path put_reply) =
       emit [EvPut sc local_path remote_path] s'"
    using fields by (cases put_reply; simp add: push_file_def push_error_not_connection)+
  have pull: "fst (pull_file s' local_path remote_path get_reply) \<noteq> Inl SCPConnectionError"
    "snd (pull_file s' local_path remote_path get_reply) =
       emit [EvGet sc remote_path local_path] s'"
    using fields by (cases get_reply; simp add: pull_file_def pull_error_not_connection)+
  from ok fields push pull sc show ?thesis by simp
qed

theorem ssh_disconnect_keeps_scp_witness:
  "ssh_connection_status st_scp_open = 2 \<and>
   scp_connection_status st_scp_open = 2 \<and>
   fst (ssh_disconnect st_scp_open (Returns ())) = Inr () \<and>
   scp_connection_status (snd (ssh_disconnect st_scp_open (Returns ()))) = 2 \<and>
   scp_session (snd (ssh_disconnect st_scp_open (Returns ()))) =
     Some (SCPClient (SSHClient 0))"
  using ssh_disconnect_keeps_scp [of
      "[Ssh_connect ''198.18.0.171'' ''root'' (Some ''./axiom_rsa.key'') False
          (every_attempt accepted), Scp_connect (Returns ())]"
      "snd (ssh_disconnect st_scp_open (Returns ()))"
      "''./test.txt''" "''/mnt/internal_slot1/''" "Returns ()" "Returns ()",
      folded st_scp_open_calls]
  by (simp add: st_scp_open_eq)

subsection \<open>Failed checks and the status fields\<close>

text \<open>
  Claim C5 says that every method other than \<open>ssh_connect\<close> that fails its check
  leaves both status fields as they were, \<open>scp_connect\<close> included. On a new object
  (ssh status 1, scp status 1) \<open>scp_connect\<close> raises \<open>SCPConnectionError\<close> and
  leaves the scp status at 0: line 236 stores it before the \<open>raise\<close>.
\<close>

theorem scp_connect_sets_failed_counterexample:
  "ssh_connection_status init \<noteq> 2 \<and>
   scp_connection_status init = 1 \<and>
   fst (scp_connect init (Returns ())) = Inl SCPConnectionError \<and>
   scp_connection_status (snd (scp_connect init (Returns ()))) = 0"
  by (simp add: init_def scp_connect_def)

text \<open>
  Claim C5, as amended: \<open>ssh_disconnect\<close>, \<open>execute_command\<close>,
  \<open>scp_disconnect\<close>, \<open>push_file\<close> and \<open>pull_file\<close>, when their check fails,
  raise and leave the whole state, both status fields included, as it was;
  \<open>scp_connect\<close> called with an ssh status other than 2 raises
  \<open>SCPConnectionError\<close>, leaves the ssh status as it was and sets the scp status to 0.
\<close>

theorem precondition_failures_status:
  "(ssh_connection_status s = 0 \<or> ssh_connection_status s = 1 \<longrightarrow>
      ssh_disconnect s close_reply = (Inl SSHConnectionError, s) \<and>
      execute_command s command parse exec_reply =
        (Inl (ExecuteCommandError ''SSH Command execution failed: No SSH session available''),
         s)) \<and>
   (scp_connection_status s = 0 \<or> scp_connection_status s = 1 \<longrightarrow>
      scp_disconnect s scp_close_reply = (Inl SCPConnectionError, s)) \<and>
   (scp_connection_status s \<noteq> 2 \<longrightarrow>
      push_file s local_path remote_path put_reply = (Inl SCPConnectionError, s) \<and>
      pull_file s local_path remote_path get_reply = (Inl SCPConnectionError, s)) \<and>
   (ssh_connection_status s \<noteq> 2 \<longrightarrow>
      scp_connect s build_reply =
        (Inl SCPConnectionError, s\<lparr>scp_connection_status := 0\<rparr>) \<and>
      ssh_connection_status (snd (scp_connect s build_reply)) = ssh_connection_status s \<and>
      scp_connection_status (snd (scp_connect s build_reply)) = 0)"
  by (auto simp: ssh_disconnect_def execute_command_def scp_disconnect_def push_file_def
        pull_file_def scp_connect_def)

theorem precondition_failures_status_witness:
  "ssh_connection_status st_disconnected = 1 \<and>
   scp_connection_status st_disconnected = 1 \<and>
   ssh_disconnect st_disconnected (Returns ()) = (Inl SSHConnectionError, st_disconnected) \<and>
   execute_command st_disconnected ''reboot'' True (Returns ()) =
     (Inl (ExecuteCommandError ''SSH Command execution failed: No SSH session available''),
      st_disconnected) \<and>
   scp_disconnect st_disconnected (Returns ()) = (Inl SCPConnectionError, st_disconnected) \<and>
   push_file st_disconnected ''./test.txt'' ''/mnt/internal_slot1/'' (Returns ()) =
     (Inl SCPConnectionError, st_disconnected) \<and>
   pull_file st_disconnected ''./test.txt'' ''/mnt/internal_slot1/'' (Returns ()) =
     (Inl SCPConnectionError, st_disconnected) \<and>
   scp_connect st_disconnected (Returns ()) =
     (Inl SCPConnectionError, st_disconnected\<lparr>scp_connection_status := 0\<rparr>)"
  using precondition_failures_status [of st_disconnected "Returns ()" "''reboot''" True
      "Returns ()" "Returns ()" "''./test.txt''" "''/mnt/internal_slot1/''"
      "Returns ()" "Returns ()" "Returns ()"]
  by (simp add: st_disconnected_eq)

subsection \<open>Retries of \<open>ssh_connect\<close>\<close>

text \<open>
  Claim C4. Let \<open>ssh_connect\<close> be called with a status other than 2 (or with
  \<open>force_connect\<close>), and let an attempt be one run of the \<open>try\<close> body.
  If the first attempt ends in an \<open>AuthenticationException\<close>, the call raises
  \<open>SSHAuthenticationError\<close> after that one attempt: one connect call, no pause.
  If the first attempt ends in any other exception, there is one pause of 1 second and a
  second attempt; an \<open>AuthenticationException\<close> there raises
  \<open>SSHAuthenticationError\<close> at once, and any other exception ends the call after
  exactly two connect calls with \<open>NetworkError\<close> when that last exception is an
  \<open>OSError\<close>, \<open>SSHConnectionError\<close> when it is an \<open>SSHException\<close> and
  \<open>UnknownError\<close> otherwise, with the status set to 0.
\<close>

theorem ssh_connect_retries:
  assumes "ssh_connection_status s \<noteq> 2 \<or> force_connect"
    and "c = SSHClient (allocated s)"
    and "fresh = s\<lparr>ssh_session := Some c, allocated := Suc (allocated s)\<rparr>"
  shows
    "(try_body c hostname username ssh_key_path (replies 0) =
        (evs_a, Raises AuthenticationException) \<longrightarrow>
      ssh_connect s hostname username ssh_key_path force_connect replies =
        (Inl SSHAuthenticationError, emit evs_a fresh) \<and>
      length (filter is_connect evs_a) = 1 \<and> filter is_sleep evs_a = []) \<and>
     (try_body c hostname username ssh_key_path (replies 0) = (evs_a, Raises exn_a) \<and>
      exn_a \<noteq> AuthenticationException \<and>
      try_body c hostname username ssh_key_path (replies 1) =
        (evs_b, Raises AuthenticationException) \<longrightarrow>
      ssh_connect s hostname username ssh_key_path force_connect replies =
        (Inl SSHAuthenticationError, emit (evs_a @ [EvSleep 1] @ evs_b) fresh)) \<and>
     (try_body c hostname username ssh_key_path (replies 0) = (evs_a, Raises exn_a) \<and>
      exn_a \<noteq> AuthenticationException \<and>
      try_body c hostname username ssh_key_path (replies 1) = (evs_b, Raises exn_b) \<and>
      exn_b \<noteq> AuthenticationException \<longrightarrow>
      ssh_connect s hostname username ssh_key_path force_connect replies =
        (Inl (if isinstance_OSError exn_b then NetworkError
              else if isinstance_SSHException exn_b then SSHConnectionError
              else UnknownError),
         (emit (evs_a @ [EvSleep 1] @ evs_b) fresh)\<lparr>ssh_connection_status := 0\<rparr>) \<and>
      length (filter is_connect (evs_a @ [EvSleep 1] @ evs_b)) = 2 \<and>
      filter is_sleep (evs_a @ [EvSleep 1] @ evs_b) = [EvSleep 1])"
proof (intro conjI impI)
  assume a: "try_body c hostname username ssh_key_path (replies 0) =
        (evs_a, Raises AuthenticationException)"
  with assms show "ssh_connect s hostname username ssh_key_path force_connect replies =
        (Inl SSHAuthenticationError, emit evs_a fresh)"
    by (auto simp: ssh_connect_two Let_def)
  from try_body_one_connect [OF a]
  show "length (filter is_connect evs_a) = 1" and "filter is_sleep evs_a = []" by simp_all
next
  assume a: "try_body c hostname username ssh_key_path (replies 0) = (evs_a, Raises exn_a) \<and>
      exn_a \<noteq> AuthenticationException \<and>
      try_body c hostname username ssh_key_path (replies 1) =
        (evs_b, Raises AuthenticationException)"
  with assms show "ssh_connect s hostname username ssh_key_path force_connect replies =
        (Inl SSHAuthenticationError, emit (evs_a @ [EvSleep 1] @ evs_b) fresh)"
    by (auto simp: ssh_connect_two Let_def emit_append max_connection_attempts_def
          retry_delay_def)
next
  assume a: "try_body c hostname username ssh_key_path (replies 0) = (evs_a, Raises exn_a) \<and>
      exn_a \<noteq> AuthenticationException \<and>
      try_body c hostname username ssh_key_path (replies 1) = (evs_b, Raises exn_b) \<and>
      exn_b \<noteq> AuthenticationException"
  with assms show "ssh_connect s hostname username ssh_key_path force_connect replies =
        (Inl (if isinstance_OSError exn_b then NetworkError
              else if isinstance_SSHException exn_b then SSHConnectionError
              else UnknownError),
         (emit (evs_a @ [EvSleep 1] @ evs_b) fresh)\<lparr>ssh_connection_status := 0\<rparr>)"
    by (auto simp: ssh_connect_two Let_def emit_append max_connection_attempts_def
          retry_delay_def)
  from a have t0: "try_body c hostname username ssh_key_path (replies 0) = (evs_a, Raises exn_a)"
    and t1: "try_body c hostname username ssh_key_path (replies 1) = (evs_b, Raises exn_b)"
    by simp_all
  from try_body_one_connect [OF t0] try_body_one_connect [OF t1]
  show "length (filter is_connect (evs_a @ [EvSleep 1] @ evs_b)) = 2"
    and "filter is_sleep (evs_a @ [EvSleep 1] @ evs_b) = [EvSleep 1]"
    by simp_all
qed

theorem ssh_connect_retries_witness:
  "ssh_connect init ''10.0.0.5'' ''root'' (Some ''./axiom_rsa.key'') False
     (every_attempt (raising AuthenticationException)) =
     (Inl SSHAuthenticationError,
      \<lparr>ssh_session = Some (SSHClient 0), scp_session = None,
       ssh_connection_status = 1, scp_connection_status = 1, allocated = Suc 0,
       transport_log =
         [EvConnectKey (SSHClient 0) ''10.0.0.5'' ''root'' ''./axiom_rsa.key'']\<rparr>) \<and>
   ssh_connect init ''10.0.0.5'' ''root'' (Some ''./axiom_rsa.key'') False
     (first_then (raising OSError) (raising AuthenticationException)) =
     (Inl SSHAuthenticationError,
      \<lparr>ssh_session = Some (SSHClient 0), scp_session = None,
       ssh_connection_status = 1, scp_connection_status = 1, allocated = Suc 0,
       transport_log =
         [EvConnectKey (SSHClient 0) ''10.0.0.5'' ''root'' ''./axiom_rsa.key'',
          EvSleep 1,
          EvConnectKey (SSHClient 0) ''10.0.0.5'' ''root'' ''./axiom_rsa.key'']\<rparr>) \<and>
   ssh_connect init ''10.0.0.5'' ''root'' (Some ''./axiom_rsa.key'') False
     (first_then (raising SSHException) (raising OSError)) =
     (Inl NetworkError,
      \<lparr>ssh_session = Some (SSHClient 0), scp_session = None,
       ssh_connection_status = 0, scp_connection_status = 1, allocated = Suc 0,
       transport_log =
         [EvConnectKey (SSHClient 0) ''10.0.0.5'' ''root'' ''./axiom_rsa.key'',
          EvSleep 1,
          EvConnectKey (SSHClient 0) ''10.0.0.5'' ''root'' ''./axiom_rsa.key'']\<rparr>)"
  using
    ssh_connect_retries [where s = init and force_connect = False and c = "SSHClient 0"
      and fresh = "init\<lparr>ssh_session := Some (SSHClient 0), allocated := Suc 0\<rparr>"
      and hostname = "''10.0.0.5''" and username = "''root''"
      and ssh_key_path = "Some ''./axiom_rsa.key''"
      and replies = "every_attempt (raising AuthenticationException)"
      and evs_a = "[EvConnectKey (SSHClient 0) ''10.0.0.5'' ''root'' ''./axiom_rsa.key'']"
      and exn_a = OSError and evs_b = "[]" and exn_b = OSError]
    ssh_connect_retries [where s = init and force_connect = False and c = "SSHClient 0"
      and fresh = "init\<lparr>ssh_session := Some (SSHClient 0), allocated := Suc 0\<rparr>"
      and hostname = "''10.0.0.5''" and username = "''root''"
      and ssh_key_path = "Some ''./axiom_rsa.key''"
      and replies = "first_then (raising OSError) (raising AuthenticationException)"
      and evs_a = "[EvConnectKey (SSHClient 0) ''10.0.0.5'' ''root'' ''./axiom_rsa.key'']"
      and exn_a = OSError
      and evs_b = "[EvConnectKey (SSHClient 0) ''10.0.0.5'' ''root'' ''./axiom_rsa.key'']"
      and exn_b = OSError]
    ssh_connect_retries [where s = init and force_connect = False and c = "SSHClient 0"
      and fresh = "init\<lparr>ssh_session := Some (SSHClient 0), allocated := Suc 0\<rparr>"
      and hostname = "''10.0.0.5''" and username = "''root''"
      and ssh_key_path = "Some ''./axiom_rsa.key''"
      and replies = "first_then (raising SSHException) (raising OSError)"
      and evs_a = "[EvConnectKey (SSHClient 0) ''10.0.0.5'' ''root'' ''./axiom_rsa.key'']"
      and exn_a = SSHException
      and evs_b = "[EvConnectKey (SSHClient 0) ''10.0.0.5'' ''root'' ''./axiom_rsa.key'']"
      and exn_b = OSError]
  by (simp add: init_def try_body_def every_attempt_def first_then_def raising_def emit_def)

end
